theory Spec2Isabelle
  imports Main "HOL-Library.Sublist" "HOL-Library.AList"
begin

section \<open>Data model\<close>

text \<open>
  A JavaScript \<^verbatim>\<open>Error\<close> is identified by its message. A contact is the kad
  \<^verbatim>\<open>Contact\<close> object the node code reads: address, port, nodeID and the
  protocol version string.
\<close>

datatype error = Error string

record contact =
  address :: string
  port :: int
  nodeID :: string
  protocol :: string

text \<open>
  A JavaScript primitive value, as far as the code tells values apart: \<^verbatim>\<open>undefined\<close>
  (also: a property that is absent), \<^verbatim>\<open>null\<close>, a boolean, a number, a string.
  A number is an integer, as \<^verbatim>\<open>Date.now()\<close> and a shard count are, small
  enough for its string to be its decimal digits.
\<close>

datatype jsval = Undefined | Null | JBool bool | JNumber int | JString string

text \<open>
  The \<^verbatim>\<open>params\<close> object of a request and the \<^verbatim>\<open>result\<close> object of a
  response. The message comes from the network and nothing checks the type of its
  \<^verbatim>\<open>nonce\<close>: it is any value the sender chose, or absent (the synthetic
  rate-limit response is built with \<^verbatim>\<open>result: {}\<close>). The code uses the nonce in
  two \<^verbatim>\<open>+\<close> operations only, where an object (an array, a Buffer) acts as the
  primitive value it converts to, a string; so the nonce is a primitive value here. (An
  object that has no conversion makes both operations throw; it is not a value of this
  type.)
\<close>

record body =
  nonce :: jsval
  signature :: "string option"

text \<open>
  A \<^verbatim>\<open>kad.Message\<close> is either a request (id, method, params) or a response
  (id, result, error).
\<close>

datatype message =
  Request string string body
| Response string body "error option"

fun isRequest :: "message \<Rightarrow> bool" where
  "isRequest (Request i m p) = True"
| "isRequest (Response i r e) = False"

fun isResponse :: "message \<Rightarrow> bool" where
  "isResponse (Request i m p) = False"
| "isResponse (Response i r e) = True"

fun message_id :: "message \<Rightarrow> string" where
  "message_id (Request i m p) = i"
| "message_id (Response i r e) = i"

text \<open>The \<^verbatim>\<open>method\<close> property: \<^verbatim>\<open>undefined\<close> on a response.\<close>

fun message_method :: "message \<Rightarrow> string option" where
  "message_method (Request i m p) = Some m"
| "message_method (Response i r e) = None"

text \<open>\<^verbatim>\<open>message[isRequest(message) ? 'params' : 'result']\<close>\<close>

fun message_body :: "message \<Rightarrow> body" where
  "message_body (Request i m p) = p"
| "message_body (Response i r e) = r"

text \<open>
  What the node reads from outside its own source files: the process environment, the
  constants module, the local protocol version, and the library functions it calls
  (the \<^verbatim>\<open>ip\<close> module, bitcore's signature parsing, public key recovery and message
  verification, and the \<^verbatim>\<open>ms\<close> duration formatter). They are parameters of the
  model. So is \<^verbatim>\<open>Number_gt_String now s\<close>, the comparison \<^verbatim>\<open>now > s\<close> of a
  number with a string that is not a plain sequence of decimal digits: JavaScript
  converts such a string by its grammar of numeric literals, and the comparison is false
  when the string is not a numeric literal.
\<close>

record env =
  STORJ_ALLOW_LOOPBACK :: "string option"
  NONCE_EXPIRE :: int
  version :: string
  ip_isLoopback :: "string \<Rightarrow> bool"
  Signature_fromCompact :: "string \<Rightarrow> string option"
  ecdsa_toPublicKey :: "string \<Rightarrow> string \<Rightarrow> string"
  Message_verify :: "string \<Rightarrow> string \<Rightarrow> string \<Rightarrow> bool"
  ms :: "int \<Rightarrow> string"
  Number_gt_String :: "int \<Rightarrow> string \<Rightarrow> bool"

text \<open>JavaScript truthiness of an environment variable: set and not the empty string.\<close>

definition truthy :: "string option \<Rightarrow> bool" where
  "truthy v = (case v of None \<Rightarrow> False | Some s \<Rightarrow> s \<noteq> [])"

section \<open>utils\<close>

text \<open>
  Modelled from the spec: \<^verbatim>\<open>utils.isValidContact\<close> (lib/utils.js is not among the
  sources; its tests are). An address is invalid when it is a loopback address and
  loopback is not enabled; the port must be greater than 0.
\<close>

definition isValidContact :: "env \<Rightarrow> contact \<Rightarrow> bool \<Rightarrow> bool" where
  "isValidContact e c loopback =
     (0 < port c \<and> (if ip_isLoopback e (address c) then loopback else True))"

section \<open>Transport\<close>

text \<open>
  \<^verbatim>\<open>Transport.prototype.send\<close> either hands the message to the underlying
  \<^verbatim>\<open>kad.transports.HTTP.prototype.send\<close> or calls back with an error.
\<close>

datatype sent =
  HTTP_send contact message
| Callback error

definition send :: "env \<Rightarrow> contact \<Rightarrow> message \<Rightarrow> sent" where
  "send e c m =
     (if isResponse m then HTTP_send c m
      else if \<not> isValidContact e c (truthy (STORJ_ALLOW_LOOPBACK e))
      then Callback (Error ''Invalid or forbidden contact address'')
      else HTTP_send c m)"

section \<open>Number and version strings\<close>

text \<open>\<^verbatim>\<open>Number.prototype.toString()\<close> on an integer: its decimal digits.\<close>

fun digits :: "nat \<Rightarrow> string" where
  "digits n = (if n < 10 then [''0123456789'' ! n] else digits (n div 10) @ [''0123456789'' ! (n mod 10)])"

definition toString :: "int \<Rightarrow> string" where
  "toString i = (if i < 0 then CHR ''-'' # digits (nat (- i)) else digits (nat i))"

definition is_digit :: "char \<Rightarrow> bool" where
  "is_digit c = (c \<in> set ''0123456789'')"

definition digit_value :: "char \<Rightarrow> nat" where
  "digit_value c = of_char c - 48"

definition parse_nat :: "string \<Rightarrow> nat option" where
  "parse_nat s =
     (if s \<noteq> [] \<and> list_all is_digit s
      then Some (foldl (\<lambda>n c. 10 * n + digit_value c) 0 s) else None)"

fun split_dots :: "string \<Rightarrow> string list" where
  "split_dots [] = [[]]"
| "split_dots (c # cs) =
     (if c = CHR ''.'' then [] # split_dots cs
      else (case split_dots cs of [] \<Rightarrow> [[c]] | p # ps \<Rightarrow> (c # p) # ps))"

text \<open>
  A parsed version string \<^verbatim>\<open>MAJOR.MINOR.PATCH\<close> with an optional tag: everything
  from the first \<^verbatim>\<open>-\<close> on.
\<close>

record semver =
  major :: nat
  minor :: nat
  patch :: nat
  tag :: string

definition semver_parse :: "string \<Rightarrow> semver option" where
  "semver_parse s =
     (case map parse_nat (split_dots (takeWhile (\<lambda>c. c \<noteq> CHR ''-'') s)) of
        [Some a, Some b, Some c] \<Rightarrow>
          Some \<lparr>major = a, minor = b, patch = c, tag = dropWhile (\<lambda>c. c \<noteq> CHR ''-'') s\<rparr>
      | _ \<Rightarrow> None)"

text \<open>
  Modelled from the spec: \<^verbatim>\<open>utils.isCompatibleVersion\<close> (lib/utils.js and
  lib/version.js are not among the sources; the tests are). Compatible means same major
  and same minor and same build tag; the patch number is free. The local version is the
  first argument. A string that is not a version is compatible with nothing.
\<close>

definition isCompatibleVersion :: "string \<Rightarrow> string \<Rightarrow> bool" where
  "isCompatibleVersion local remote =
     (case (semver_parse local, semver_parse remote) of
        (Some l, Some r) \<Rightarrow> major l = major r \<and> minor l = minor r \<and> tag l = tag r
      | _ \<Rightarrow> False)"

section \<open>Network\<close>

text \<open>
  The kad \<^verbatim>\<open>Bucket\<close> is a list of contacts. \<^verbatim>\<open>getContactList\<close> returns a
  copy of it; \<^verbatim>\<open>removeContact\<close> deletes the entry that has the contact's nodeID.
\<close>

fun Bucket_removeContact :: "contact \<Rightarrow> contact list \<Rightarrow> contact list" where
  "Bucket_removeContact c [] = []"
| "Bucket_removeContact c (x # xs) =
     (if nodeID x = nodeID c then xs else x # Bucket_removeContact c xs)"

text \<open>
  The state of the node that the functions below touch: the router's buckets, in the
  order \<^verbatim>\<open>for (var k in this._router._buckets)\<close> visits them, and the public keys
  recovered from signatures.
\<close>

record network =
  buckets :: "(nat \<times> contact list) list"
  pubkeys :: "string \<rightharpoonup> string"

text \<open>
  \<^verbatim>\<open>this._router.removeContact(contact)\<close>: the contact leaves the bucket that
  holds it.
\<close>

definition Router_removeContact :: "contact \<Rightarrow> network \<Rightarrow> network" where
  "Router_removeContact c net =
     net\<lparr>buckets := map (\<lambda>(k, b). (k, Bucket_removeContact c b)) (buckets net)\<rparr>"

definition RPC_VALIDATION_EXEMPT :: "string list" where
  "RPC_VALIDATION_EXEMPT = [''PROBE'', ''FIND_TUNNEL'', ''OPEN_TUNNEL'']"

text \<open>
  \<^verbatim>\<open>Network.RPC_VALIDATION_EXEMPT.indexOf(message.method) === -1\<close>; the method of
  a response is \<^verbatim>\<open>undefined\<close>, which is not in the list.
\<close>

definition not_exempt :: "message \<Rightarrow> bool" where
  "not_exempt m =
     (case message_method m of None \<Rightarrow> True | Some meth \<Rightarrow> meth \<notin> set RPC_VALIDATION_EXEMPT)"

definition validateContact :: "env \<Rightarrow> network \<Rightarrow> contact \<Rightarrow> error option \<times> network" where
  "validateContact e net c =
     (if \<not> isCompatibleVersion (version e) (protocol c)
      then (Some (Error ''Protocol version is incompatible''), Router_removeContact c net)
      else if \<not> isValidContact e c (truthy (STORJ_ALLOW_LOOPBACK e))
      then (Some (Error ''Invalid contact data supplied''), Router_removeContact c net)
      else (None, net))"

text \<open>
  \<^verbatim>\<open>_createSignatureObject\<close>: \<^verbatim>\<open>null\<close> when the signature is missing or
  does not parse as a compact signature.
\<close>

definition createSignatureObject :: "env \<Rightarrow> string option \<Rightarrow> string option" where
  "createSignatureObject e sig =
     (case sig of None \<Rightarrow> None | Some s \<Rightarrow> Signature_fromCompact e s)"

text \<open>The string a primitive value becomes when it is added to a string.\<close>

definition ToString :: "jsval \<Rightarrow> string" where
  "ToString v =
     (case v of
        Undefined \<Rightarrow> ''undefined''
      | Null \<Rightarrow> ''null''
      | JBool b \<Rightarrow> (if b then ''true'' else ''false'')
      | JNumber n \<Rightarrow> toString n
      | JString s \<Rightarrow> s)"

text \<open>The signed text \<^verbatim>\<open>message.id + nonce\<close>, a string concatenation.\<close>

definition signed_text :: "message \<Rightarrow> jsval \<Rightarrow> string" where
  "signed_text m n = message_id m @ ToString n"

definition verifySignature ::
  "env \<Rightarrow> network \<Rightarrow> message \<Rightarrow> jsval \<Rightarrow> string option \<Rightarrow> contact \<Rightarrow> string option
     \<Rightarrow> error option \<times> network" where
  "verifySignature e net m n signobj c sig =
     (case signobj of
        None \<Rightarrow> (Some (Error ''Invalid signature supplied''), net)
      | Some so \<Rightarrow>
          (let net' = net\<lparr>pubkeys := (pubkeys net)(nodeID c \<mapsto> ecdsa_toPublicKey e (signed_text m n) so)\<rparr>
           in if \<not> (case sig of None \<Rightarrow> False
                     | Some s \<Rightarrow> Message_verify e (signed_text m n) (nodeID c) s)
              then (Some (Error ''Signature verification failed''), net')
              else (None, net')))"

text \<open>
  \<^verbatim>\<open>now > s\<close> for a number and a string: the string is converted to a number. A
  sequence of decimal digits is the number it writes.
\<close>

definition gt_string :: "env \<Rightarrow> int \<Rightarrow> string \<Rightarrow> bool" where
  "gt_string e now s =
     (case parse_nat s of Some n \<Rightarrow> now > int n | None \<Rightarrow> Number_gt_String e now s)"

text \<open>
  \<^verbatim>\<open>Date.now() > (constants.NONCE_EXPIRE + nonce)\<close>. The sum is a number when the
  nonce is a number, a boolean (1 or 0) or \<^verbatim>\<open>null\<close> (0); it is \<^verbatim>\<open>NaN\<close>
  when the nonce is missing, and the comparison is false; with a string nonce the
  \<^verbatim>\<open>+\<close> is the concatenation of the digits of NONCE_EXPIRE and the string.
\<close>

definition nonce_expired :: "env \<Rightarrow> int \<Rightarrow> jsval \<Rightarrow> bool" where
  "nonce_expired e now n =
     (case n of
        Undefined \<Rightarrow> False
      | Null \<Rightarrow> now > NONCE_EXPIRE e
      | JBool b \<Rightarrow> now > NONCE_EXPIRE e + (if b then 1 else 0)
      | JNumber t \<Rightarrow> now > NONCE_EXPIRE e + t
      | JString s \<Rightarrow> gt_string e now (toString (NONCE_EXPIRE e) @ s))"

text \<open>
  \<^verbatim>\<open>_verifyMessage\<close>: the result is the argument of the callback
  (\<open>None\<close> for \<^verbatim>\<open>callback()\<close>) and the node's new state. \<open>now\<close> is
  \<^verbatim>\<open>Date.now()\<close>.
\<close>

definition verifyMessage ::
  "env \<Rightarrow> int \<Rightarrow> network \<Rightarrow> message \<Rightarrow> contact \<Rightarrow> error option \<times> network" where
  "verifyMessage e now net m c =
     (case validateContact e net c of (err, net1) \<Rightarrow>
        if err \<noteq> None \<and> not_exempt m then (err, net1)
        else if nonce_expired e now (nonce (message_body m))
        then (Some (Error ''Message signature expired''), net1)
        else verifySignature e net1 m (nonce (message_body m))
               (createSignatureObject e (signature (message_body m))) c
               (signature (message_body m)))"

text \<open>
  The \<^verbatim>\<open>RateLimiter\<close> (lib/network/ratelimiter.js is not among the sources) is a
  parameter: a state \<open>'l\<close> with the three methods the node calls.
\<close>

record 'l ratelimiter =
  isLimited :: "'l \<Rightarrow> string \<Rightarrow> bool"
  updateCounter :: "'l \<Rightarrow> string \<Rightarrow> 'l"
  getResetTime :: "'l \<Rightarrow> int"

text \<open>
  \<^verbatim>\<open>_checkRateLimiter\<close>, a hook that runs before the protocol handlers. The result
  says whether \<^verbatim>\<open>next()\<close> was called (the later hooks and the handlers run only
  then), the limiter's new state, and what was handed to the transport.
\<close>

record 'l limited =
  next_called :: bool
  limiter :: 'l
  transport_send :: "sent option"

definition checkRateLimiter ::
  "env \<Rightarrow> 'l ratelimiter \<Rightarrow> 'l \<Rightarrow> message \<Rightarrow> contact \<Rightarrow> 'l limited" where
  "checkRateLimiter e rl lim m c =
     (if isResponse m then \<lparr>next_called = True, limiter = lim, transport_send = None\<rparr>
      else if \<not> isLimited rl lim (nodeID c)
      then \<lparr>next_called = True, limiter = updateCounter rl lim (nodeID c), transport_send = None\<rparr>
      else \<lparr>next_called = False, limiter = lim,
             transport_send = Some (send e c
               (Response (message_id m) \<lparr>nonce = Undefined, signature = None\<rparr>
                  (Some (Error (''Rate limit exceeded, please wait '' @ ms e (getResetTime rl lim))))))\<rparr>)"

text \<open>
  \<^verbatim>\<open>_cleanRoutingTable\<close>. The inner loop walks the copy \<open>bucketList\<close> of the
  bucket and removes from the bucket itself; the outer loop visits every bucket and
  returns the dropped contacts.
\<close>

definition bad_contact :: "env \<Rightarrow> contact \<Rightarrow> bool" where
  "bad_contact e x =
     (\<not> isValidContact e x (truthy (STORJ_ALLOW_LOOPBACK e)) \<or>
      \<not> isCompatibleVersion (version e) (protocol x))"

fun cleanBucket ::
  "env \<Rightarrow> contact list \<Rightarrow> contact list \<times> contact list \<Rightarrow> contact list \<times> contact list" where
  "cleanBucket e [] (dropped, bucket) = (dropped, bucket)"
| "cleanBucket e (x # bucketList) (dropped, bucket) =
     (if \<not> isValidContact e x (truthy (STORJ_ALLOW_LOOPBACK e)) \<or>
         \<not> isCompatibleVersion (version e) (protocol x)
      then cleanBucket e bucketList (dropped @ [x], Bucket_removeContact x bucket)
      else cleanBucket e bucketList (dropped, bucket))"

fun cleanBuckets ::
  "env \<Rightarrow> (nat \<times> contact list) list \<Rightarrow> contact list
     \<Rightarrow> contact list \<times> (nat \<times> contact list) list" where
  "cleanBuckets e [] dropped = (dropped, [])"
| "cleanBuckets e ((k, bucket) # rest) dropped =
     (case cleanBucket e bucket (dropped, bucket) of (dropped1, bucket1) \<Rightarrow>
        (case cleanBuckets e rest dropped1 of (dropped2, rest2) \<Rightarrow>
           (dropped2, (k, bucket1) # rest2)))"

definition cleanRoutingTable :: "env \<Rightarrow> network \<Rightarrow> contact list \<times> network" where
  "cleanRoutingTable e net =
     (case cleanBuckets e (buckets net) [] of (dropped, bs) \<Rightarrow> (dropped, net\<lparr>buckets := bs\<rparr>))"

section \<open>File muxer\<close>

text \<open>
  lib/filemuxer.js is not among the sources; its unit tests and its caller
  \<^verbatim>\<open>BridgeClient.prototype.resolveFileFromPointers\<close> are. An option passed to the
  constructor is a JavaScript value (missing, a string, a number); an input stream is the list of chunks it
  emits. The fields \<^verbatim>\<open>_shards\<close>, \<^verbatim>\<open>_length\<close> and \<^verbatim>\<open>_added\<close> are the
  ones the caller reads and writes.
\<close>

record options =
  opt_shards :: jsval
  opt_length :: jsval

record muxer =
  mux_shards :: int
  mux_length :: int
  mux_added :: int
  mux_inputs :: "string list list"
  mux_bytesRead :: int

text \<open>
  Modelled from the spec: the \<^verbatim>\<open>FileMuxer\<close> constructor. Both \<^verbatim>\<open>shards\<close> and
  \<^verbatim>\<open>length\<close> must be supplied as numbers and be positive; the error messages are
  those of the unit tests.
\<close>

definition FileMuxer :: "options \<Rightarrow> error + muxer" where
  "FileMuxer opts =
     (case opt_shards opts of
        JNumber n \<Rightarrow>
          if n \<le> 0 then Inl (Error ''Cannot multiplex a 0 shard stream'')
          else (case opt_length opts of
                  JNumber l \<Rightarrow>
                    if l \<le> 0 then Inl (Error ''Cannot multiplex a 0 length stream'')
                    else Inr \<lparr>mux_shards = n, mux_length = l, mux_added = 0,
                              mux_inputs = [], mux_bytesRead = 0\<rparr>
                | _ \<Rightarrow> Inl (Error ''You must supply a length parameter''))
      | _ \<Rightarrow> Inl (Error ''You must supply a shards parameter''))"

text \<open>
  Modelled from the spec: \<^verbatim>\<open>FileMuxer.prototype.input\<close> registers an input in
  arrival order; adding more than \<^verbatim>\<open>shards\<close> inputs fails.
\<close>

definition input :: "muxer \<Rightarrow> string list \<Rightarrow> error + muxer" where
  "input m readable =
     (if mux_added m < mux_shards m
      then Inr (m\<lparr>mux_added := mux_added m + 1, mux_inputs := mux_inputs m @ [readable]\<rparr>)
      else Inl (Error ''Inputs exceed defined number of shards''))"

fun inputs :: "muxer \<Rightarrow> string list list \<Rightarrow> error + muxer" where
  "inputs m [] = Inr m"
| "inputs m (r # rs) = (case input m r of Inl err \<Rightarrow> Inl err | Inr m' \<Rightarrow> inputs m' rs)"

text \<open>
  Modelled from the spec: reading the muxer to its end. It drains input 0 to completion,
  then input 1, and so on; a chunk that takes the bytes delivered beyond the declared
  length is an error; running out of inputs before the declared length is reached
  (also: reading with no input registered) is an error. The result is the chunks emitted
  as \<^verbatim>\<open>data\<close> and the error emitted, if any.
\<close>

fun drain :: "int \<Rightarrow> int \<Rightarrow> string list list \<Rightarrow> string list \<times> error option" where
  "drain len bytesRead [] =
     ([], if bytesRead = len then None else Some (Error ''Unexpected end of input''))"
| "drain len bytesRead ([] # rest) = drain len bytesRead rest"
| "drain len bytesRead ((chunk # chunks) # rest) =
     (if len < bytesRead + int (length chunk)
      then ([], Some (Error ''Input exceeds the declared length''))
      else (case drain len (bytesRead + int (length chunk)) (chunks # rest) of
              (out, err) \<Rightarrow> (chunk # out, err)))"

text \<open>The number of bytes a list of input streams delivers in all.\<close>

definition bytes :: "string list list \<Rightarrow> int" where
  "bytes ins = (\<Sum>chunk \<leftarrow> concat ins. int (length chunk))"

definition read :: "muxer \<Rightarrow> string list \<times> error option" where
  "read m = drain (mux_length m) (mux_bytesRead m) (mux_inputs m)"

text \<open>The use of the muxer: construct it, register the inputs, read to the end.\<close>

definition multiplex :: "options \<Rightarrow> string list list \<Rightarrow> error + string list \<times> error option" where
  "multiplex opts rs =
     (case FileMuxer opts of
        Inl err \<Rightarrow> Inl err
      | Inr m \<Rightarrow> (case inputs m rs of Inl err \<Rightarrow> Inl err | Inr m' \<Rightarrow> Inr (read m')))"

text \<open>The input streams of the unit test: the decimal strings of \<open>a + 1\<close> to \<open>b\<close>.\<close>

definition counting :: "int \<Rightarrow> int \<Rightarrow> string list" where
  "counting a b = map toString [a + 1 .. b]"

text \<open>
  \<^verbatim>\<open>BridgeClient.prototype.resolveFileFromPointers\<close>: the muxer is built for the
  pointers at hand; \<^verbatim>\<open>_addInputToMultiplexer\<close> then opens one input per pointer
  taken from the queue, and grows a full muxer before it registers the input. Opening
  the data channel (\<^verbatim>\<open>_createInputFromPointer\<close>) is a parameter: it fails or gives
  the input stream.
\<close>

record pointer =
  pointer_hash :: string
  pointer_size :: int

definition newMuxer :: "pointer list \<Rightarrow> error + muxer" where
  "newMuxer pointers =
     FileMuxer \<lparr>opt_shards = JNumber (int (length pointers)),
                opt_length = JNumber (foldl (\<lambda>a b. a + pointer_size b) 0 pointers)\<rparr>"

definition addInputToMultiplexer ::
  "(pointer \<Rightarrow> error + string list) \<Rightarrow> muxer \<Rightarrow> pointer option \<Rightarrow> error + muxer" where
  "addInputToMultiplexer createInputFromPointer m p =
     (case p of
        None \<Rightarrow> Inr m
      | Some pointer \<Rightarrow>
          (case createInputFromPointer pointer of
             Inl err \<Rightarrow> Inl err
           | Inr inputStream \<Rightarrow>
               input (if mux_added m = mux_shards m
                      then m\<lparr>mux_length := mux_length m + pointer_size pointer,
                             mux_shards := mux_shards m + 1\<rparr>
                      else m) inputStream))"

text \<open>
  The queue worker runs one pointer after the other (the queue has concurrency 1) and
  stops at the first data channel that fails to open.
\<close>

fun addInputs ::
  "(pointer \<Rightarrow> error + string list) \<Rightarrow> muxer \<Rightarrow> pointer list \<Rightarrow> error + muxer" where
  "addInputs createInputFromPointer m [] = Inr m"
| "addInputs createInputFromPointer m (p # ps) =
     (case addInputToMultiplexer createInputFromPointer m (Some p) of
        Inl err \<Rightarrow> Inl err
      | Inr m' \<Rightarrow> addInputs createInputFromPointer m' ps)"

section \<open>Storage adapters\<close>












section \<open>An example node\<close>

definition env0 :: env where
  "env0 = \<lparr>STORJ_ALLOW_LOOPBACK = None, NONCE_EXPIRE = 300000, version = ''1.2.3'',
            ip_isLoopback = (\<lambda>a. a = ''127.0.0.1''),
            Signature_fromCompact = (\<lambda>s. if s = ''malformed'' then None else Some s),
            ecdsa_toPublicKey = (\<lambda>t so. so),
            Message_verify = (\<lambda>t a s. s = ''signed:'' @ t),
            ms = (\<lambda>t. toString (t div 1000) @ ''s''),
            Number_gt_String = (\<lambda>now s. False)\<rparr>"

definition contact0 :: contact where
  "contact0 = \<lparr>address = ''104.200.143.243'', port = 1337,
               nodeID = ''7a728a8c27fa378cafbd300c1e38639362f87ee8'', protocol = ''1.2.9''\<rparr>"

definition net0 :: network where
  "net0 = \<lparr>buckets = [], pubkeys = Map.empty\<rparr>"

text \<open>
  A rate limiter for the examples: the state lists the nodeID of every counted request,
  and a contact is limited from its second request on.
\<close>

definition limiter0 :: "string list ratelimiter" where
  "limiter0 = \<lparr>isLimited = (\<lambda>l n. 2 \<le> count_list l n),
                updateCounter = (\<lambda>l n. n # l),
                getResetTime = (\<lambda>l. 60000)\<rparr>"

text \<open>
  A routing table for the examples: contacts with the local version, another patch,
  another major, a build tag, a loopback address and port 0.
\<close>

definition routing0 :: network where
  "routing0 =
     \<lparr>buckets =
        [(0, [contact0,
              contact0\<lparr>nodeID := ''01'', protocol := ''999.0.0''\<rparr>,
              contact0\<lparr>nodeID := ''02'', protocol := ''1.2.3-buildtag''\<rparr>]),
         (5, [contact0\<lparr>nodeID := ''03'', address := ''127.0.0.1''\<rparr>,
              contact0\<lparr>nodeID := ''04'', port := 0\<rparr>,
              contact0\<lparr>nodeID := ''05'', protocol := ''1.2.3''\<rparr>])],
      pubkeys = Map.empty\<rparr>"

section \<open>Sending through the transport\<close>

text \<open>
  C10. A response is always forwarded to the underlying transport, whatever the
  destination contact is. A request to a contact that fails
  \<^verbatim>\<open>isValidContact\<close> (with the STORJ_ALLOW_LOOPBACK allowance) is not
  transmitted: the callback receives the error
  \<^verbatim>\<open>Invalid or forbidden contact address\<close>. A request to a valid contact is
  forwarded.
\<close>

theorem send_asymmetric:
  "send e c (Response i r err) = HTTP_send c (Response i r err) \<and>
   (\<not> isValidContact e c (truthy (STORJ_ALLOW_LOOPBACK e)) \<longrightarrow>
      send e c (Request i m p) = Callback (Error ''Invalid or forbidden contact address'')) \<and>
   (isValidContact e c (truthy (STORJ_ALLOW_LOOPBACK e)) \<longrightarrow>
      send e c (Request i m p) = HTTP_send c (Request i m p))"
  by (simp add: send_def)

theorem send_asymmetric_witness:
  "\<not> isValidContact env0 (contact0\<lparr>port := 0\<rparr>) (truthy (STORJ_ALLOW_LOOPBACK env0)) \<and>
   send env0 (contact0\<lparr>port := 0\<rparr>) (Request ''id'' ''PING'' \<lparr>nonce = JNumber 0, signature = None\<rparr>) =
     Callback (Error ''Invalid or forbidden contact address'') \<and>
   send env0 (contact0\<lparr>port := 0\<rparr>) (Response ''id'' \<lparr>nonce = JNumber 0, signature = None\<rparr> None) =
     HTTP_send (contact0\<lparr>port := 0\<rparr>) (Response ''id'' \<lparr>nonce = JNumber 0, signature = None\<rparr> None) \<and>
   isValidContact env0 contact0 (truthy (STORJ_ALLOW_LOOPBACK env0)) \<and>
   send env0 contact0 (Request ''id'' ''PING'' \<lparr>nonce = JNumber 0, signature = None\<rparr>) =
     HTTP_send contact0 (Request ''id'' ''PING'' \<lparr>nonce = JNumber 0, signature = None\<rparr>)"
proof -
  have bad: "\<not> isValidContact env0 (contact0\<lparr>port := 0\<rparr>) (truthy (STORJ_ALLOW_LOOPBACK env0))"
    by (simp add: isValidContact_def contact0_def)
  have good: "isValidContact env0 contact0 (truthy (STORJ_ALLOW_LOOPBACK env0))"
    by (simp add: isValidContact_def contact0_def env0_def)
  show ?thesis
    using bad good
      send_asymmetric [of env0 "contact0\<lparr>port := 0\<rparr>" "''id''" "\<lparr>nonce = JNumber 0, signature = None\<rparr>" None "''PING''" "\<lparr>nonce = JNumber 0, signature = None\<rparr>"]
      send_asymmetric [of env0 contact0 "''id''" "\<lparr>nonce = JNumber 0, signature = None\<rparr>" None "''PING''" "\<lparr>nonce = JNumber 0, signature = None\<rparr>"]
    by simp
qed

section \<open>Verification of incoming messages\<close>

lemma fst_verifySignature:
  "fst (verifySignature e net m n so c sig) =
     (case so of
        None \<Rightarrow> Some (Error ''Invalid signature supplied'')
      | Some x \<Rightarrow>
          if (case sig of None \<Rightarrow> False | Some s \<Rightarrow> Message_verify e (signed_text m n) (nodeID c) s)
          then None else Some (Error ''Signature verification failed''))"
  by (simp add: verifySignature_def Let_def split: option.splits)

lemma pubkeys_validateContact: "pubkeys (snd (validateContact e net c)) = pubkeys net"
  by (simp add: validateContact_def Router_removeContact_def)

text \<open>
  C7. For a request whose method is PROBE, FIND_TUNNEL or OPEN_TUNNEL the outcome of
  \<^verbatim>\<open>_verifyMessage\<close> does not depend on the contact validation: it is what the
  nonce and signature checks give. For a request with any other method, and for a
  response (which has no method), a contact with an incompatible protocol version or
  an invalid address is rejected with the error of the contact validation.
\<close>

theorem verifyMessage_exempt:
  "(meth \<in> {''PROBE'', ''FIND_TUNNEL'', ''OPEN_TUNNEL''} \<longrightarrow>
      fst (verifyMessage e now net (Request i meth p) c) =
        (if nonce_expired e now (nonce p) then Some (Error ''Message signature expired'')
         else fst (verifySignature e net (Request i meth p) (nonce p)
                     (createSignatureObject e (signature p)) c (signature p)))) \<and>
   (meth \<notin> {''PROBE'', ''FIND_TUNNEL'', ''OPEN_TUNNEL''} \<longrightarrow>
      \<not> isCompatibleVersion (version e) (protocol c) \<longrightarrow>
      fst (verifyMessage e now net (Request i meth p) c) =
        Some (Error ''Protocol version is incompatible'')) \<and>
   (meth \<notin> {''PROBE'', ''FIND_TUNNEL'', ''OPEN_TUNNEL''} \<longrightarrow>
      isCompatibleVersion (version e) (protocol c) \<longrightarrow>
      \<not> isValidContact e c (truthy (STORJ_ALLOW_LOOPBACK e)) \<longrightarrow>
      fst (verifyMessage e now net (Request i meth p) c) =
        Some (Error ''Invalid contact data supplied'')) \<and>
   (\<not> isCompatibleVersion (version e) (protocol c) \<longrightarrow>
      fst (verifyMessage e now net (Response i p err) c) =
        Some (Error ''Protocol version is incompatible'')) \<and>
   (isCompatibleVersion (version e) (protocol c) \<longrightarrow>
      \<not> isValidContact e c (truthy (STORJ_ALLOW_LOOPBACK e)) \<longrightarrow>
      fst (verifyMessage e now net (Response i p err) c) =
        Some (Error ''Invalid contact data supplied''))"
  by (simp add: verifyMessage_def validateContact_def not_exempt_def
      RPC_VALIDATION_EXEMPT_def fst_verifySignature split: prod.splits)

theorem verifyMessage_exempt_witness:
  "''PROBE'' \<in> {''PROBE'', ''FIND_TUNNEL'', ''OPEN_TUNNEL''} \<and>
   ''PING'' \<notin> {''PROBE'', ''FIND_TUNNEL'', ''OPEN_TUNNEL''} \<and>
   \<not> isCompatibleVersion (version env0) (protocol (contact0\<lparr>protocol := ''999.0.0''\<rparr>)) \<and>
   isCompatibleVersion (version env0) (protocol (contact0\<lparr>port := 0\<rparr>)) \<and>
   \<not> isValidContact env0 (contact0\<lparr>port := 0\<rparr>) (truthy (STORJ_ALLOW_LOOPBACK env0)) \<and>
   fst (verifyMessage env0 1000 net0
          (Request ''id'' ''PROBE'' \<lparr>nonce = JNumber 7, signature = Some ''signed:id7''\<rparr>)
          (contact0\<lparr>protocol := ''999.0.0''\<rparr>)) = None \<and>
   fst (verifyMessage env0 1000 net0
          (Request ''id'' ''PING'' \<lparr>nonce = JNumber 7, signature = Some ''signed:id7''\<rparr>)
          (contact0\<lparr>protocol := ''999.0.0''\<rparr>)) = Some (Error ''Protocol version is incompatible'') \<and>
   fst (verifyMessage env0 1000 net0
          (Request ''id'' ''PING'' \<lparr>nonce = JNumber 7, signature = Some ''signed:id7''\<rparr>)
          (contact0\<lparr>port := 0\<rparr>)) = Some (Error ''Invalid contact data supplied'') \<and>
   fst (verifyMessage env0 1000 net0
          (Response ''id'' \<lparr>nonce = JNumber 7, signature = Some ''signed:id7''\<rparr> None)
          (contact0\<lparr>protocol := ''999.0.0''\<rparr>)) = Some (Error ''Protocol version is incompatible'') \<and>
   fst (verifyMessage env0 1000 net0
          (Response ''id'' \<lparr>nonce = JNumber 7, signature = Some ''signed:id7''\<rparr> None)
          (contact0\<lparr>port := 0\<rparr>)) = Some (Error ''Invalid contact data supplied'')"
proof -
  have v1: "\<not> isCompatibleVersion (version env0) (protocol (contact0\<lparr>protocol := ''999.0.0''\<rparr>))"
    by code_simp
  have v2: "isCompatibleVersion (version env0) (protocol (contact0\<lparr>port := 0\<rparr>))"
    by code_simp
  have v3: "\<not> isValidContact env0 (contact0\<lparr>port := 0\<rparr>) (truthy (STORJ_ALLOW_LOOPBACK env0))"
    by (simp add: isValidContact_def contact0_def)
  have t: "toString 7 = ''7''"
    by code_simp
  have s: "fst (verifySignature env0 net0
             (Request ''id'' ''PROBE'' \<lparr>nonce = JNumber 7, signature = Some ''signed:id7''\<rparr>) (JNumber 7)
             (createSignatureObject env0 (Some ''signed:id7'')) (contact0\<lparr>protocol := ''999.0.0''\<rparr>)
             (Some ''signed:id7'')) = None"
    by (simp add: fst_verifySignature createSignatureObject_def env0_def signed_text_def ToString_def t)
  have x: "\<not> nonce_expired env0 1000 (JNumber 7)"
    by (simp add: nonce_expired_def env0_def)
  show ?thesis
    using v1 v2 v3 s x
      verifyMessage_exempt [of "''PROBE''" env0 1000 net0 "''id''"
        "\<lparr>nonce = JNumber 7, signature = Some ''signed:id7''\<rparr>" "contact0\<lparr>protocol := ''999.0.0''\<rparr>" None]
      verifyMessage_exempt [of "''PING''" env0 1000 net0 "''id''"
        "\<lparr>nonce = JNumber 7, signature = Some ''signed:id7''\<rparr>" "contact0\<lparr>protocol := ''999.0.0''\<rparr>" None]
      verifyMessage_exempt [of "''PING''" env0 1000 net0 "''id''"
        "\<lparr>nonce = JNumber 7, signature = Some ''signed:id7''\<rparr>" "contact0\<lparr>port := 0\<rparr>" None]
    by simp
qed

lemma verifyMessage_expired:
  assumes "nonce (message_body m) = JNumber t" and "NONCE_EXPIRE e < now - t"
  shows "verifyMessage e now net m c =
           (if fst (validateContact e net c) \<noteq> None \<and> not_exempt m
            then validateContact e net c
            else (Some (Error ''Message signature expired''), snd (validateContact e net c)))"
  using assms by (simp add: verifyMessage_def nonce_expired_def split: prod.splits)

lemma verifyMessage_accepts:
  assumes "fst (verifyMessage e now net m c) = None"
  shows "\<not> nonce_expired e now (nonce (message_body m))"
  using assms by (auto simp: verifyMessage_def split: prod.splits if_splits)

lemma toString_0: "toString 0 = ''0''"
  by code_simp

lemma contact0_valid:
  "isCompatibleVersion (version env0) (protocol contact0) \<and>
   isValidContact env0 contact0 (truthy (STORJ_ALLOW_LOOPBACK env0))"
proof
  show "isCompatibleVersion (version env0) (protocol contact0)" by code_simp
  show "isValidContact env0 contact0 (truthy (STORJ_ALLOW_LOOPBACK env0))"
    by (simp add: isValidContact_def contact0_def env0_def)
qed

lemma contact0_port0:
  "isCompatibleVersion (version env0) (protocol (contact0\<lparr>port := 0\<rparr>)) \<and>
   \<not> isValidContact env0 (contact0\<lparr>port := 0\<rparr>) (truthy (STORJ_ALLOW_LOOPBACK env0))"
  using contact0_valid by (simp add: isValidContact_def)

text \<open>
  C2, as the code has it. The check is \<^verbatim>\<open>Date.now() > NONCE_EXPIRE + nonce\<close>. For
  a message whose nonce is a number, verification succeeds only when
  \<open>now - nonce \<le> NONCE_EXPIRE\<close>. A message whose nonce is a number more than
  NONCE_EXPIRE milliseconds behind the receiver's clock is always rejected, and before
  the signature is looked at (no public key is recovered): with the error
  \<^verbatim>\<open>Message signature expired\<close> when the contact passed validation or the method
  is exempt from it, and with the error of the contact validation otherwise.
\<close>

theorem verifyMessage_nonce:
  "(nonce (message_body m) = JNumber t \<longrightarrow> fst (verifyMessage e now net m c) = None \<longrightarrow>
      now - t \<le> NONCE_EXPIRE e) \<and>
   (nonce (message_body m) = JNumber t \<longrightarrow> NONCE_EXPIRE e < now - t \<longrightarrow>
      fst (verifyMessage e now net m c) \<noteq> None \<and>
      pubkeys (snd (verifyMessage e now net m c)) = pubkeys net) \<and>
   (nonce (message_body m) = JNumber t \<longrightarrow> NONCE_EXPIRE e < now - t \<longrightarrow>
      fst (validateContact e net c) = None \<or> \<not> not_exempt m \<longrightarrow>
      fst (verifyMessage e now net m c) = Some (Error ''Message signature expired'')) \<and>
   (nonce (message_body m) = JNumber t \<longrightarrow> NONCE_EXPIRE e < now - t \<longrightarrow>
      fst (validateContact e net c) = Some err \<longrightarrow> not_exempt m \<longrightarrow>
      fst (verifyMessage e now net m c) = Some err \<and>
      err \<in> {Error ''Protocol version is incompatible'', Error ''Invalid contact data supplied''})"
proof (intro conjI impI)
  assume n: "nonce (message_body m) = JNumber t" and ok: "fst (verifyMessage e now net m c) = None"
  from verifyMessage_accepts [OF ok] n show "now - t \<le> NONCE_EXPIRE e"
    by (simp add: nonce_expired_def)
next
  assume n: "nonce (message_body m) = JNumber t" and old: "NONCE_EXPIRE e < now - t"
  show "fst (verifyMessage e now net m c) \<noteq> None"
    by (simp add: verifyMessage_expired [OF n old])
next
  assume n: "nonce (message_body m) = JNumber t" and old: "NONCE_EXPIRE e < now - t"
  show "pubkeys (snd (verifyMessage e now net m c)) = pubkeys net"
    by (simp add: verifyMessage_expired [OF n old] pubkeys_validateContact)
next
  assume n: "nonce (message_body m) = JNumber t" and old: "NONCE_EXPIRE e < now - t"
    and v: "fst (validateContact e net c) = None \<or> \<not> not_exempt m"
  show "fst (verifyMessage e now net m c) = Some (Error ''Message signature expired'')"
    using v by (auto simp: verifyMessage_expired [OF n old])
next
  assume n: "nonce (message_body m) = JNumber t" and old: "NONCE_EXPIRE e < now - t"
    and v: "fst (validateContact e net c) = Some err" and x: "not_exempt m"
  show "fst (verifyMessage e now net m c) = Some err"
    using v x by (simp add: verifyMessage_expired [OF n old])
next
  assume v: "fst (validateContact e net c) = Some err"
  then show "err \<in> {Error ''Protocol version is incompatible'', Error ''Invalid contact data supplied''}"
    by (auto simp: validateContact_def split: if_splits)
qed

theorem verifyMessage_nonce_witness:
  "nonce (message_body (Request ''id'' ''PING'' \<lparr>nonce = JNumber 0, signature = Some ''signed:id0''\<rparr>)) =
     JNumber 0 \<and>
   fst (verifyMessage env0 300000 net0
          (Request ''id'' ''PING'' \<lparr>nonce = JNumber 0, signature = Some ''signed:id0''\<rparr>) contact0) = None \<and>
   (300000::int) - 0 \<le> NONCE_EXPIRE env0 \<and>
   NONCE_EXPIRE env0 < 300001 - 0 \<and>
   fst (validateContact env0 net0 contact0) = None \<and>
   fst (verifyMessage env0 300001 net0
          (Request ''id'' ''PING'' \<lparr>nonce = JNumber 0, signature = Some ''signed:id0''\<rparr>) contact0) =
     Some (Error ''Message signature expired'') \<and>
   pubkeys (snd (verifyMessage env0 300001 net0
          (Request ''id'' ''PING'' \<lparr>nonce = JNumber 0, signature = Some ''signed:id0''\<rparr>) contact0)) =
     pubkeys net0 \<and>
   fst (validateContact env0 net0 (contact0\<lparr>port := 0\<rparr>)) =
     Some (Error ''Invalid contact data supplied'') \<and>
   not_exempt (Request ''id'' ''PING'' \<lparr>nonce = JNumber 0, signature = Some ''signed:id0''\<rparr>) \<and>
   fst (verifyMessage env0 300001 net0
          (Request ''id'' ''PING'' \<lparr>nonce = JNumber 0, signature = Some ''signed:id0''\<rparr>)
          (contact0\<lparr>port := 0\<rparr>)) = Some (Error ''Invalid contact data supplied'')"
proof -
  let ?m = "Request ''id'' ''PING'' \<lparr>nonce = JNumber 0, signature = Some ''signed:id0''\<rparr>"
  have n: "nonce (message_body ?m) = JNumber 0"
    by simp
  have a: "fst (verifyMessage env0 300000 net0 ?m contact0) = None"
    using contact0_valid
    by (simp add: verifyMessage_def validateContact_def nonce_expired_def fst_verifySignature
        createSignatureObject_def signed_text_def ToString_def toString_0 env0_def)
  have old: "NONCE_EXPIRE env0 < 300001 - 0"
    by (simp add: env0_def)
  have v: "fst (validateContact env0 net0 contact0) = None"
    using contact0_valid by (simp add: validateContact_def)
  have w: "fst (validateContact env0 net0 (contact0\<lparr>port := 0\<rparr>)) =
             Some (Error ''Invalid contact data supplied'')"
    using contact0_port0 by (simp add: validateContact_def)
  have x: "not_exempt ?m"
    by (simp add: not_exempt_def RPC_VALIDATION_EXEMPT_def)
  show ?thesis
    using n a old v w x
      verifyMessage_nonce [of ?m 0 env0 300000 net0 contact0]
      verifyMessage_nonce [of ?m 0 env0 300001 net0 contact0]
      verifyMessage_nonce [of ?m 0 env0 300001 net0 "contact0\<lparr>port := 0\<rparr>"
        "Error ''Invalid contact data supplied''"]
    by simp
qed

text \<open>
  C2 as stated fails in four ways. A message whose nonce is exactly NONCE_EXPIRE
  milliseconds old is accepted. An expired request from a contact with port 0 is rejected
  with the contact validation's error, not with the expiry error. A message without a
  nonce never expires (the signed text then ends in \<^verbatim>\<open>undefined\<close>). And a message
  whose nonce is the string \<^verbatim>\<open>"0"\<close> instead of the number 0 is accepted at a time
  when the number has expired: the sum is the string \<^verbatim>\<open>"3000000"\<close>, and the signed
  text is that of the number, so the signature made for the number verifies.
\<close>

theorem verifyMessage_nonce_counterexample:
  "300000 - 0 = NONCE_EXPIRE env0 \<and>
   fst (verifyMessage env0 300000 net0
          (Request ''id'' ''PING'' \<lparr>nonce = JNumber 0, signature = Some ''signed:id0''\<rparr>) contact0) = None \<and>
   fst (verifyMessage env0 400000 net0
          (Request ''id'' ''PING'' \<lparr>nonce = JNumber 0, signature = Some ''signed:id0''\<rparr>)
          (contact0\<lparr>port := 0\<rparr>)) = Some (Error ''Invalid contact data supplied'') \<and>
   fst (verifyMessage env0 400000 net0
          (Request ''id'' ''PING'' \<lparr>nonce = Undefined, signature = Some ''signed:idundefined''\<rparr>)
          contact0) = None \<and>
   fst (verifyMessage env0 400000 net0
          (Request ''id'' ''PING'' \<lparr>nonce = JNumber 0, signature = Some ''signed:id0''\<rparr>)
          contact0) = Some (Error ''Message signature expired'') \<and>
   fst (verifyMessage env0 400000 net0
          (Request ''id'' ''PING'' \<lparr>nonce = JString ''0'', signature = Some ''signed:id0''\<rparr>)
          contact0) = None"
proof -
  have a: "fst (verifyMessage env0 300000 net0
          (Request ''id'' ''PING'' \<lparr>nonce = JNumber 0, signature = Some ''signed:id0''\<rparr>) contact0) = None"
    using contact0_valid
    by (simp add: verifyMessage_def validateContact_def nonce_expired_def fst_verifySignature
        createSignatureObject_def signed_text_def ToString_def toString_0 env0_def)
  have b: "fst (verifyMessage env0 400000 net0
          (Request ''id'' ''PING'' \<lparr>nonce = JNumber 0, signature = Some ''signed:id0''\<rparr>)
          (contact0\<lparr>port := 0\<rparr>)) = Some (Error ''Invalid contact data supplied'')"
    using contact0_port0
    by (simp add: verifyMessage_def validateContact_def not_exempt_def RPC_VALIDATION_EXEMPT_def)
  have c: "fst (verifyMessage env0 400000 net0
          (Request ''id'' ''PING'' \<lparr>nonce = Undefined, signature = Some ''signed:idundefined''\<rparr>)
          contact0) = None"
    using contact0_valid
    by (simp add: verifyMessage_def validateContact_def nonce_expired_def fst_verifySignature
        createSignatureObject_def signed_text_def ToString_def env0_def)
  have d: "fst (verifyMessage env0 400000 net0
          (Request ''id'' ''PING'' \<lparr>nonce = JNumber 0, signature = Some ''signed:id0''\<rparr>)
          contact0) = Some (Error ''Message signature expired'')"
    using contact0_valid
    by (simp add: verifyMessage_def validateContact_def nonce_expired_def env0_def)
  have t: "toString 300000 = ''300000''"
    by (simp add: toString_def)
  have p: "parse_nat ''3000000'' = Some 3000000"
    by (simp add: parse_nat_def is_digit_def digit_value_def)
  have x: "\<not> nonce_expired env0 400000 (JString ''0'')"
    by (simp add: nonce_expired_def gt_string_def env0_def t p)
  have f: "fst (verifyMessage env0 400000 net0
          (Request ''id'' ''PING'' \<lparr>nonce = JString ''0'', signature = Some ''signed:id0''\<rparr>)
          contact0) = None"
    using contact0_valid x
    by (simp add: verifyMessage_def validateContact_def fst_verifySignature
        createSignatureObject_def signed_text_def ToString_def env0_def)
  show ?thesis using a b c d f by (simp add: env0_def)
qed

section \<open>Rate limiter\<close>

text \<open>
  C8. The rate limiter counts requests only. A response passes (\<^verbatim>\<open>next()\<close> is
  called) and the limiter is left as it was. A request from a contact that is over its
  limit is answered with a response carrying the error
  \<^verbatim>\<open>Rate limit exceeded, please wait\<close> and the time left; \<^verbatim>\<open>next()\<close> is not
  called, so no later hook and no protocol handler runs, and the counter is not updated.
  A request from a contact within its budget updates the counter and proceeds.
\<close>

theorem checkRateLimiter_requests_only:
  "checkRateLimiter e rl lim (Response i r err) c =
     \<lparr>next_called = True, limiter = lim, transport_send = None\<rparr> \<and>
   (isLimited rl lim (nodeID c) \<longrightarrow>
      checkRateLimiter e rl lim (Request i meth p) c =
        \<lparr>next_called = False, limiter = lim,
         transport_send = Some (HTTP_send c
           (Response i \<lparr>nonce = Undefined, signature = None\<rparr>
              (Some (Error (''Rate limit exceeded, please wait '' @ ms e (getResetTime rl lim))))))\<rparr>) \<and>
   (\<not> isLimited rl lim (nodeID c) \<longrightarrow>
      checkRateLimiter e rl lim (Request i meth p) c =
        \<lparr>next_called = True, limiter = updateCounter rl lim (nodeID c), transport_send = None\<rparr>)"
  by (simp add: checkRateLimiter_def send_def)

theorem checkRateLimiter_requests_only_witness:
  "isLimited limiter0 [nodeID contact0, nodeID contact0] (nodeID contact0) \<and>
   checkRateLimiter env0 limiter0 [nodeID contact0, nodeID contact0]
       (Request ''id'' ''PING'' \<lparr>nonce = JNumber 0, signature = None\<rparr>) contact0 =
     \<lparr>next_called = False, limiter = [nodeID contact0, nodeID contact0],
      transport_send = Some (HTTP_send contact0
        (Response ''id'' \<lparr>nonce = Undefined, signature = None\<rparr>
           (Some (Error ''Rate limit exceeded, please wait 60s''))))\<rparr> \<and>
   \<not> isLimited limiter0 [nodeID contact0] (nodeID contact0) \<and>
   checkRateLimiter env0 limiter0 [nodeID contact0]
       (Request ''id'' ''PING'' \<lparr>nonce = JNumber 0, signature = None\<rparr>) contact0 =
     \<lparr>next_called = True, limiter = [nodeID contact0, nodeID contact0], transport_send = None\<rparr>"
proof -
  have l: "isLimited limiter0 [nodeID contact0, nodeID contact0] (nodeID contact0)"
    by (simp add: limiter0_def)
  have u: "\<not> isLimited limiter0 [nodeID contact0] (nodeID contact0)"
    by (simp add: limiter0_def)
  have t: "ms env0 (getResetTime limiter0 [nodeID contact0, nodeID contact0]) = ''60s''"
    unfolding env0_def limiter0_def by code_simp
  show ?thesis
    using l u t
      checkRateLimiter_requests_only [of env0 limiter0 "[nodeID contact0, nodeID contact0]" "''id''"
        "\<lparr>nonce = JNumber 0, signature = None\<rparr>" None contact0 "''PING''" "\<lparr>nonce = JNumber 0, signature = None\<rparr>"]
      checkRateLimiter_requests_only [of env0 limiter0 "[nodeID contact0]" "''id''"
        "\<lparr>nonce = JNumber 0, signature = None\<rparr>" None contact0 "''PING''" "\<lparr>nonce = JNumber 0, signature = None\<rparr>"]
    by (simp add: limiter0_def)
qed

section \<open>Routing table cleaner\<close>

lemma Bucket_removeContact_filter:
  "distinct (map nodeID b) \<Longrightarrow>
   Bucket_removeContact x b = filter (\<lambda>y. nodeID y \<noteq> nodeID x) b"
proof (induction b)
  case Nil
  then show ?case by simp
next
  case (Cons y ys)
  show ?case
  proof (cases "nodeID y = nodeID x")
    case True
    with Cons.prems have "\<forall>z \<in> set ys. nodeID z \<noteq> nodeID x"
      by (auto simp: image_iff)
    then have "filter (\<lambda>z. nodeID z \<noteq> nodeID x) ys = ys"
      by (simp add: filter_id_conv)
    with True show ?thesis by simp
  next
    case False
    with Cons show ?thesis by simp
  qed
qed

lemma cleanBucket_fold:
  "cleanBucket e xs (d, b) =
     (d @ filter (bad_contact e) xs,
      foldl (\<lambda>b x. Bucket_removeContact x b) b (filter (bad_contact e) xs))"
  by (induction xs arbitrary: d b) (simp_all add: bad_contact_def)

lemma fold_removeContact:
  "distinct (map nodeID b) \<Longrightarrow>
   foldl (\<lambda>b x. Bucket_removeContact x b) b ys = filter (\<lambda>y. nodeID y \<notin> nodeID ` set ys) b"
proof (induction ys arbitrary: b)
  case Nil
  then show ?case by simp
next
  case (Cons y ys)
  have d: "distinct (map nodeID (filter (\<lambda>z. nodeID z \<noteq> nodeID y) b))"
    using Cons.prems by (rule distinct_map_filter)
  show ?case
    using Cons.IH [OF d] Cons.prems
    by (simp add: Bucket_removeContact_filter)
qed

lemma cleanBucket_filter:
  assumes "distinct (map nodeID b)"
  shows "cleanBucket e b (d, b) =
           (d @ filter (bad_contact e) b, filter (\<lambda>x. \<not> bad_contact e x) b)"
proof -
  have "filter (\<lambda>y. nodeID y \<notin> nodeID ` set (filter (bad_contact e) b)) b =
        filter (\<lambda>x. \<not> bad_contact e x) b"
  proof (rule filter_cong [OF refl])
    fix x assume x: "x \<in> set b"
    show "(nodeID x \<notin> nodeID ` set (filter (bad_contact e) b)) = (\<not> bad_contact e x)"
    proof
      assume "nodeID x \<notin> nodeID ` set (filter (bad_contact e) b)"
      with x show "\<not> bad_contact e x" by auto
    next
      assume ok: "\<not> bad_contact e x"
      show "nodeID x \<notin> nodeID ` set (filter (bad_contact e) b)"
      proof
        assume "nodeID x \<in> nodeID ` set (filter (bad_contact e) b)"
        then obtain y where y: "y \<in> set b" "bad_contact e y" "nodeID y = nodeID x"
          by auto
        from assms have "inj_on nodeID (set b)"
          by (simp add: distinct_map)
        with x y have "y = x" by (auto dest: inj_onD)
        with y ok show False by simp
      qed
    qed
  qed
  then show ?thesis
    by (simp add: cleanBucket_fold fold_removeContact [OF assms])
qed

lemma cleanBuckets_filter:
  "\<forall>(k, b) \<in> set bs. distinct (map nodeID b) \<Longrightarrow>
   cleanBuckets e bs d =
     (d @ concat (map (\<lambda>(k, b). filter (bad_contact e) b) bs),
      map (\<lambda>(k, b). (k, filter (\<lambda>x. \<not> bad_contact e x) b)) bs)"
proof (induction bs arbitrary: d)
  case Nil
  then show ?case by simp
next
  case (Cons kb bs)
  obtain k b where kb: "kb = (k, b)" by (cases kb)
  from Cons.prems kb have d: "distinct (map nodeID b)" by simp
  from Cons.prems have rest: "\<forall>(k, b) \<in> set bs. distinct (map nodeID b)" by simp
  show ?case
    by (simp add: kb cleanBucket_filter [OF d] Cons.IH [OF rest])
qed

text \<open>
  C6. Let every bucket hold at most one contact per nodeID (the bucket's own invariant).
  After one run of \<^verbatim>\<open>_cleanRoutingTable\<close> every contact left in any bucket has a
  compatible protocol version and a valid address: its port is greater than 0, and it is
  not a loopback address unless STORJ_ALLOW_LOOPBACK is set. Every contact that fails
  one of the two checks is in the returned list and in no bucket any more; nothing else
  is dropped, and each bucket keeps exactly its contacts that pass both checks.
\<close>

theorem cleanRoutingTable_drops_invalid:
  assumes "\<forall>(k, b) \<in> set (buckets net). distinct (map nodeID b)"
    and "cleanRoutingTable e net = (dropped, net')"
  shows "(\<forall>(k, b) \<in> set (buckets net'). \<forall>c \<in> set b.
            isCompatibleVersion (version e) (protocol c) \<and>
            isValidContact e c (truthy (STORJ_ALLOW_LOOPBACK e)) \<and>
            0 < port c \<and> (ip_isLoopback e (address c) \<longrightarrow> truthy (STORJ_ALLOW_LOOPBACK e))) \<and>
         (\<forall>(k, b) \<in> set (buckets net). \<forall>c \<in> set b.
            \<not> isCompatibleVersion (version e) (protocol c) \<or>
            \<not> isValidContact e c (truthy (STORJ_ALLOW_LOOPBACK e)) \<longrightarrow>
            c \<in> set dropped \<and> (\<forall>(k', b') \<in> set (buckets net'). c \<notin> set b')) \<and>
         (\<forall>c \<in> set dropped.
            \<not> isCompatibleVersion (version e) (protocol c) \<or>
            \<not> isValidContact e c (truthy (STORJ_ALLOW_LOOPBACK e))) \<and>
         buckets net' =
           map (\<lambda>(k, b). (k, filter (\<lambda>c. isCompatibleVersion (version e) (protocol c) \<and>
                  isValidContact e c (truthy (STORJ_ALLOW_LOOPBACK e))) b)) (buckets net)"
proof -
  have ok: "(\<lambda>c. \<not> bad_contact e c) =
            (\<lambda>c. isCompatibleVersion (version e) (protocol c) \<and>
                  isValidContact e c (truthy (STORJ_ALLOW_LOOPBACK e)))"
    by (auto simp: bad_contact_def)
  from assms(2) cleanBuckets_filter [OF assms(1), of e "[]"]
  have dr: "dropped = concat (map (\<lambda>(k, b). filter (bad_contact e) b) (buckets net))"
    and bs: "buckets net' = map (\<lambda>(k, b). (k, filter (\<lambda>x. \<not> bad_contact e x) b)) (buckets net)"
    by (auto simp: cleanRoutingTable_def)
  have rem: "\<And>k b c. (k, b) \<in> set (buckets net') \<Longrightarrow> c \<in> set b \<Longrightarrow> \<not> bad_contact e c"
    unfolding bs by auto
  have drp: "\<And>k b c. (k, b) \<in> set (buckets net) \<Longrightarrow> c \<in> set b \<Longrightarrow> bad_contact e c \<Longrightarrow>
      c \<in> set dropped"
    unfolding dr by auto
  have only: "\<And>c. c \<in> set dropped \<Longrightarrow> bad_contact e c"
    unfolding dr by auto
  have 1: "\<forall>(k, b) \<in> set (buckets net'). \<forall>c \<in> set b.
            isCompatibleVersion (version e) (protocol c) \<and>
            isValidContact e c (truthy (STORJ_ALLOW_LOOPBACK e)) \<and>
            0 < port c \<and> (ip_isLoopback e (address c) \<longrightarrow> truthy (STORJ_ALLOW_LOOPBACK e))"
  proof (intro ballI, clarify)
    fix k b c assume "(k, b) \<in> set (buckets net')" "c \<in> set b"
    then have "\<not> bad_contact e c" by (rule rem)
    then show "isCompatibleVersion (version e) (protocol c) \<and>
            isValidContact e c (truthy (STORJ_ALLOW_LOOPBACK e)) \<and>
            0 < port c \<and> (ip_isLoopback e (address c) \<longrightarrow> truthy (STORJ_ALLOW_LOOPBACK e))"
      by (simp add: bad_contact_def isValidContact_def)
  qed
  have 2: "\<forall>(k, b) \<in> set (buckets net). \<forall>c \<in> set b.
            \<not> isCompatibleVersion (version e) (protocol c) \<or>
            \<not> isValidContact e c (truthy (STORJ_ALLOW_LOOPBACK e)) \<longrightarrow>
            c \<in> set dropped \<and> (\<forall>(k', b') \<in> set (buckets net'). c \<notin> set b')"
  proof (intro ballI, clarify)
    fix k b c assume in_b: "(k, b) \<in> set (buckets net)" "c \<in> set b"
      and "\<not> isCompatibleVersion (version e) (protocol c) \<or>
            \<not> isValidContact e c (truthy (STORJ_ALLOW_LOOPBACK e))"
    then have bad: "bad_contact e c" by (auto simp: bad_contact_def)
    have "c \<in> set dropped" using in_b bad by (rule drp)
    moreover have "\<forall>(k', b') \<in> set (buckets net'). c \<notin> set b'"
      using rem bad by blast
    ultimately show "c \<in> set dropped \<and> (\<forall>(k', b') \<in> set (buckets net'). c \<notin> set b')" ..
  qed
  have 3: "\<forall>c \<in> set dropped.
            \<not> isCompatibleVersion (version e) (protocol c) \<or>
            \<not> isValidContact e c (truthy (STORJ_ALLOW_LOOPBACK e))"
    using only by (auto simp: bad_contact_def)
  have 4: "buckets net' =
           map (\<lambda>(k, b). (k, filter (\<lambda>c. isCompatibleVersion (version e) (protocol c) \<and>
                  isValidContact e c (truthy (STORJ_ALLOW_LOOPBACK e))) b)) (buckets net)"
    using bs unfolding ok .
  from 1 2 3 4 show ?thesis by (intro conjI)
qed

theorem cleanRoutingTable_drops_invalid_witness:
  "list_all (\<lambda>(k, b). distinct (map nodeID b)) (buckets routing0) \<and>
   fst (cleanRoutingTable env0 routing0) =
     [contact0\<lparr>nodeID := ''01'', protocol := ''999.0.0''\<rparr>,
      contact0\<lparr>nodeID := ''02'', protocol := ''1.2.3-buildtag''\<rparr>,
      contact0\<lparr>nodeID := ''03'', address := ''127.0.0.1''\<rparr>,
      contact0\<lparr>nodeID := ''04'', port := 0\<rparr>] \<and>
   buckets (snd (cleanRoutingTable env0 routing0)) =
     [(0, [contact0]), (5, [contact0\<lparr>nodeID := ''05'', protocol := ''1.2.3''\<rparr>])] \<and>
   list_all (\<lambda>(k, b). list_all (\<lambda>c.
      isCompatibleVersion (version env0) (protocol c) \<and>
      isValidContact env0 c (truthy (STORJ_ALLOW_LOOPBACK env0)) \<and> 0 < port c) b)
     (buckets (snd (cleanRoutingTable env0 routing0)))"
proof -
  have d: "\<forall>(k, b) \<in> set (buckets routing0). distinct (map nodeID b)"
    by (simp add: routing0_def contact0_def)
  have r: "cleanRoutingTable env0 routing0 =
             (fst (cleanRoutingTable env0 routing0), snd (cleanRoutingTable env0 routing0))"
    by simp
  have dropped: "fst (cleanRoutingTable env0 routing0) =
     [contact0\<lparr>nodeID := ''01'', protocol := ''999.0.0''\<rparr>,
      contact0\<lparr>nodeID := ''02'', protocol := ''1.2.3-buildtag''\<rparr>,
      contact0\<lparr>nodeID := ''03'', address := ''127.0.0.1''\<rparr>,
      contact0\<lparr>nodeID := ''04'', port := 0\<rparr>]"
    by code_simp
  have left: "buckets (snd (cleanRoutingTable env0 routing0)) =
     [(0, [contact0]), (5, [contact0\<lparr>nodeID := ''05'', protocol := ''1.2.3''\<rparr>])]"
    by code_simp
  from cleanRoutingTable_drops_invalid [OF d r]
  have "\<forall>(k, b) \<in> set (buckets (snd (cleanRoutingTable env0 routing0))). \<forall>c \<in> set b.
      isCompatibleVersion (version env0) (protocol c) \<and>
      isValidContact env0 c (truthy (STORJ_ALLOW_LOOPBACK env0)) \<and> 0 < port c"
    by blast
  then have ok: "list_all (\<lambda>(k, b). list_all (\<lambda>c.
      isCompatibleVersion (version env0) (protocol c) \<and>
      isValidContact env0 c (truthy (STORJ_ALLOW_LOOPBACK env0)) \<and> 0 < port c) b)
     (buckets (snd (cleanRoutingTable env0 routing0)))"
    by (simp add: list_all_iff split_beta)
  from d have "list_all (\<lambda>(k, b). distinct (map nodeID b)) (buckets routing0)"
    by (simp add: list_all_iff split_beta)
  with dropped left ok show ?thesis
    by simp
qed

section \<open>Storage adapter keys\<close>






section \<open>Protocol version compatibility\<close>





section \<open>File muxer: construction and reading\<close>


lemma bytes_nonneg: "0 \<le> bytes ins"
  unfolding bytes_def by (rule sum_list_nonneg) auto

lemma drain_prefix: "prefix (fst (drain len bytesRead ins)) (concat ins)"
  by (induction len bytesRead ins rule: drain.induct) (simp_all add: split_beta)

lemma drain_all:
  "bytesRead + bytes ins = len \<Longrightarrow> drain len bytesRead ins = (concat ins, None)"
proof (induction len bytesRead ins rule: drain.induct)
  case (1 len bytesRead)
  then show ?case by (simp add: bytes_def)
next
  case (2 len bytesRead rest)
  then show ?case by (simp add: bytes_def)
next
  case (3 len bytesRead chunk chunks rest)
  have nonneg: "0 \<le> bytes (chunks # rest)"
    by (rule bytes_nonneg)
  from "3.prems" have tot: "bytesRead + int (length chunk) + bytes (chunks # rest) = len"
    by (simp add: bytes_def)
  with nonneg have fits: "\<not> len < bytesRead + int (length chunk)"
    by simp
  from "3.IH" [OF fits tot] fits show ?case
    by simp
qed

lemma inputs_ok:
  "mux_added m + int (length rs) \<le> mux_shards m \<Longrightarrow>
   inputs m rs = Inr (m\<lparr>mux_added := mux_added m + int (length rs),
                        mux_inputs := mux_inputs m @ rs\<rparr>)"
proof (induction rs arbitrary: m)
  case Nil
  then show ?case by simp
next
  case (Cons r rs)
  let ?m = "m\<lparr>mux_added := mux_added m + 1, mux_inputs := mux_inputs m @ [r]\<rparr>"
  from Cons.prems have i: "input m r = Inr ?m"
    by (simp add: input_def)
  from Cons.prems have "mux_added ?m + int (length rs) \<le> mux_shards ?m"
    by simp
  from Cons.IH [OF this] i show ?case
    by simp
qed


text \<open>
  C1. The muxer built with shards 4 and length 71 and fed the four inputs that emit
  \<^verbatim>\<open>1\<close> to \<^verbatim>\<open>10\<close>, \<^verbatim>\<open>11\<close> to \<^verbatim>\<open>20\<close>, \<^verbatim>\<open>21\<close> to
  \<^verbatim>\<open>30\<close> and \<^verbatim>\<open>31\<close> to \<^verbatim>\<open>40\<close> emits the chunks \<^verbatim>\<open>1\<close> to
  \<^verbatim>\<open>40\<close> and ends without error; their concatenation is the string of the unit
  test. In general what a muxer emits is a prefix of the chunks of input 0, followed by
  those of input 1, and so on in index order; it is all of them when the inputs deliver
  the declared length exactly.
\<close>

theorem multiplex_in_order:
  "multiplex \<lparr>opt_shards = JNumber 4, opt_length = JNumber 71\<rparr>
      [counting 0 10, counting 10 20, counting 20 30, counting 30 40] =
     Inr (counting 0 40, None) \<and>
   concat (counting 0 40) =
     ''12345678910111213141516171819202122232425262728293031323334353637383940'' \<and>
   prefix (fst (read m)) (concat (mux_inputs m)) \<and>
   (mux_bytesRead m + bytes (mux_inputs m) = mux_length m \<longrightarrow>
      read m = (concat (mux_inputs m), None)) \<and>
   (0 < n \<longrightarrow> int (length rs) \<le> n \<longrightarrow> 0 < bytes rs \<longrightarrow>
      multiplex \<lparr>opt_shards = JNumber n, opt_length = JNumber (bytes rs)\<rparr> rs =
        Inr (concat rs, None))"
proof (intro conjI impI)
  show "multiplex \<lparr>opt_shards = JNumber 4, opt_length = JNumber 71\<rparr>
      [counting 0 10, counting 10 20, counting 20 30, counting 30 40] =
     Inr (counting 0 40, None)"
    by code_simp
  show "concat (counting 0 40) =
     ''12345678910111213141516171819202122232425262728293031323334353637383940''"
    by code_simp
  show "prefix (fst (read m)) (concat (mux_inputs m))"
    by (simp add: read_def drain_prefix)
next
  assume "mux_bytesRead m + bytes (mux_inputs m) = mux_length m"
  then show "read m = (concat (mux_inputs m), None)"
    by (simp add: read_def drain_all)
next
  assume n: "0 < n" "int (length rs) \<le> n" "0 < bytes rs"
  let ?m = "\<lparr>mux_shards = n, mux_length = bytes rs, mux_added = 0, mux_inputs = [],
             mux_bytesRead = 0\<rparr>"
  from n have c: "FileMuxer \<lparr>opt_shards = JNumber n, opt_length = JNumber (bytes rs)\<rparr> = Inr ?m"
    by (simp add: FileMuxer_def)
  from n have "mux_added ?m + int (length rs) \<le> mux_shards ?m"
    by simp
  from inputs_ok [OF this] c
  show "multiplex \<lparr>opt_shards = JNumber n, opt_length = JNumber (bytes rs)\<rparr> rs =
        Inr (concat rs, None)"
    by (simp add: multiplex_def read_def drain_all)
qed


theorem multiplex_in_order_witness:
  "bytes [counting 0 10, counting 10 20, counting 20 30, counting 30 40] = 71 \<and>
   int (length [counting 0 10, counting 10 20, counting 20 30, counting 30 40]) \<le> 4 \<and>
   multiplex \<lparr>opt_shards = JNumber 4, opt_length = JNumber 71\<rparr>
      [counting 0 10, counting 10 20, counting 20 30, counting 30 40] =
     Inr (concat [counting 0 10, counting 10 20, counting 20 30, counting 30 40], None) \<and>
   mux_bytesRead \<lparr>mux_shards = 2, mux_length = 3, mux_added = 2, mux_inputs = [[''a'', ''b''], [''c'']],
      mux_bytesRead = 0\<rparr> +
     bytes (mux_inputs \<lparr>mux_shards = 2, mux_length = 3, mux_added = 2,
        mux_inputs = [[''a'', ''b''], [''c'']], mux_bytesRead = 0\<rparr>) =
     mux_length \<lparr>mux_shards = 2, mux_length = 3, mux_added = 2, mux_inputs = [[''a'', ''b''], [''c'']],
      mux_bytesRead = 0\<rparr> \<and>
   read \<lparr>mux_shards = 2, mux_length = 3, mux_added = 2, mux_inputs = [[''a'', ''b''], [''c'']],
      mux_bytesRead = 0\<rparr> = ([''a'', ''b'', ''c''], None)"
proof -
  let ?rs = "[counting 0 10, counting 10 20, counting 20 30, counting 30 40]"
  let ?m = "\<lparr>mux_shards = 2, mux_length = 3, mux_added = 2, mux_inputs = [[''a'', ''b''], [''c'']],
      mux_bytesRead = 0\<rparr>"
  have b: "bytes ?rs = 71"
    by code_simp
  have m: "mux_bytesRead ?m + bytes (mux_inputs ?m) = mux_length ?m"
    by (simp add: bytes_def)
  note t = multiplex_in_order [of ?m 4 ?rs]
  from t [THEN conjunct2, THEN conjunct2, THEN conjunct2, THEN conjunct2] b
  have g: "multiplex \<lparr>opt_shards = JNumber 4, opt_length = JNumber 71\<rparr> ?rs =
             Inr (concat ?rs, None)"
    by simp
  from t [THEN conjunct2, THEN conjunct2, THEN conjunct2, THEN conjunct1] m
  have r: "read ?m = ([''a'', ''b'', ''c''], None)"
    by simp
  from b m g r show ?thesis
    by simp
qed

section \<open>File muxer: number of inputs\<close>

text \<open>
  C3, as the code has it. \<^verbatim>\<open>input()\<close> on a muxer whose count of registered
  inputs has reached its current \<^verbatim>\<open>_shards\<close> fails with
  \<^verbatim>\<open>Inputs exceed defined number of shards\<close>, and otherwise registers the input;
  so the count never exceeds the current \<^verbatim>\<open>_shards\<close>. The current
  \<^verbatim>\<open>_shards\<close> is not bounded by the number given to the constructor:
  \<^verbatim>\<open>resolveFileFromPointers\<close>, when the muxer is full, adds 1 to
  \<^verbatim>\<open>_shards\<close> and the pointer's size to \<^verbatim>\<open>_length\<close> and then calls
  \<^verbatim>\<open>input()\<close>, which succeeds.
\<close>

theorem input_bounded_by_current_shards:
  "(mux_shards m \<le> mux_added m \<longrightarrow>
      input m r = Inl (Error ''Inputs exceed defined number of shards'')) \<and>
   (mux_added m < mux_shards m \<longrightarrow>
      input m r = Inr (m\<lparr>mux_added := mux_added m + 1, mux_inputs := mux_inputs m @ [r]\<rparr>)) \<and>
   (input m r = Inr m' \<longrightarrow> mux_added m' \<le> mux_shards m' \<and> mux_shards m' = mux_shards m) \<and>
   (mux_added m = mux_shards m \<longrightarrow> createInputFromPointer p = Inr r \<longrightarrow>
      addInputToMultiplexer createInputFromPointer m (Some p) =
        Inr (m\<lparr>mux_length := mux_length m + pointer_size p, mux_shards := mux_shards m + 1,
               mux_added := mux_added m + 1, mux_inputs := mux_inputs m @ [r]\<rparr>)) \<and>
   (mux_added m \<le> mux_shards m \<longrightarrow>
    addInputToMultiplexer createInputFromPointer m (Some p) = Inr m' \<longrightarrow>
      mux_added m' = mux_added m + 1 \<and> mux_added m' \<le> mux_shards m')"
  by (auto simp: input_def addInputToMultiplexer_def split: sum.splits if_splits)

theorem input_bounded_by_current_shards_witness:
  "input \<lparr>mux_shards = 2, mux_length = 4096, mux_added = 2, mux_inputs = [[], []], mux_bytesRead = 0\<rparr> [] =
     Inl (Error ''Inputs exceed defined number of shards'') \<and>
   input \<lparr>mux_shards = 2, mux_length = 4096, mux_added = 1, mux_inputs = [[]], mux_bytesRead = 0\<rparr> [] =
     Inr \<lparr>mux_shards = 2, mux_length = 4096, mux_added = 2, mux_inputs = [[], []], mux_bytesRead = 0\<rparr> \<and>
   addInputToMultiplexer (\<lambda>p. Inr [pointer_hash p])
     \<lparr>mux_shards = 2, mux_length = 4096, mux_added = 2, mux_inputs = [[], []], mux_bytesRead = 0\<rparr>
     (Some \<lparr>pointer_hash = ''b'', pointer_size = 1\<rparr>) =
     Inr \<lparr>mux_shards = 3, mux_length = 4097, mux_added = 3, mux_inputs = [[], [], [''b'']],
          mux_bytesRead = 0\<rparr>"
  using
    input_bounded_by_current_shards [of
      "\<lparr>mux_shards = 2, mux_length = 4096, mux_added = 2, mux_inputs = [[], []], mux_bytesRead = 0\<rparr>"
      "[]" "\<lparr>mux_shards = 2, mux_length = 4096, mux_added = 2, mux_inputs = [[], []], mux_bytesRead = 0\<rparr>"
      "\<lambda>p. Inr [pointer_hash p]" "\<lparr>pointer_hash = ''b'', pointer_size = 1\<rparr>"]
    input_bounded_by_current_shards [of
      "\<lparr>mux_shards = 2, mux_length = 4096, mux_added = 1, mux_inputs = [[]], mux_bytesRead = 0\<rparr>"
      "[]" "\<lparr>mux_shards = 2, mux_length = 4096, mux_added = 2, mux_inputs = [[], []], mux_bytesRead = 0\<rparr>"
      "\<lambda>p. Inr [pointer_hash p]" "\<lparr>pointer_hash = ''b'', pointer_size = 1\<rparr>"]
  by (simp add: addInputToMultiplexer_def input_def)

text \<open>
  C3 as stated fails: a muxer built by \<^verbatim>\<open>resolveFileFromPointers\<close> for one
  pointer (shards 1) has two inputs registered through \<^verbatim>\<open>input()\<close> once the
  queue has worked off a second pointer.
\<close>

theorem input_bounded_by_current_shards_counterexample:
  "newMuxer [\<lparr>pointer_hash = ''a'', pointer_size = 1\<rparr>] =
     Inr \<lparr>mux_shards = 1, mux_length = 1, mux_added = 0, mux_inputs = [], mux_bytesRead = 0\<rparr> \<and>
   addInputs (\<lambda>p. Inr [pointer_hash p])
     \<lparr>mux_shards = 1, mux_length = 1, mux_added = 0, mux_inputs = [], mux_bytesRead = 0\<rparr>
     [\<lparr>pointer_hash = ''a'', pointer_size = 1\<rparr>, \<lparr>pointer_hash = ''b'', pointer_size = 1\<rparr>] =
     Inr \<lparr>mux_shards = 2, mux_length = 2, mux_added = 2, mux_inputs = [[''a''], [''b'']],
          mux_bytesRead = 0\<rparr>"
  by (simp add: newMuxer_def FileMuxer_def addInputToMultiplexer_def input_def)

end
